theory Spec2Isabelle
  imports Main "HOL-Library.Sublist"
begin

section \<open>The script extract_pdf.py\<close>

text \<open>
  The whole program is one module-level statement:
  \<^verbatim>\<open>
  try:
      result = subprocess.run(['textutil', '-convert', 'txt', '-stdout',
                               '/Users/sachinbuluswar/Desktop/API Reference - OpenAI API.pdf'],
                              capture_output=True, text=True)
      if result.returncode == 0:
          print(result.stdout)
      else:
          print(f"Error: {result.stderr}")
  except Exception as e:
      print(f"Failed to extract PDF: {e}")
  \<close>
  Everything the script does not compute itself is a parameter of the model: what
  \<open>subprocess.run\<close> answers, the script's own command line and its environment.
  The script's standard output is the text written so far; \<open>print\<close> extends it.
\<close>

subsection \<open>Data\<close>

text \<open>
  \<open>subprocess.CompletedProcess\<close>, as far as the script reads it. With
  \<open>capture_output=True, text=True\<close> both streams are decoded text.
\<close>

record completed_process =
  returncode :: int
  stdout :: string
  stderr :: string

text \<open>
  A raised Python object. The handler \<open>except Exception as e\<close> distinguishes
  only whether the object is an instance of \<open>Exception\<close> (every error class is;
  \<open>KeyboardInterrupt\<close> and \<open>SystemExit\<close> are not), and the f-string reads only
  \<open>str(e)\<close>.
\<close>

datatype py_exception = PyException (is_Exception: bool) (description: string)

datatype spawn_result = Returned completed_process | Raised py_exception

text \<open>The arguments of the call \<open>subprocess.run(args, capture_output=..., text=...)\<close>.\<close>

record invocation =
  args :: "string list"
  capture_output :: bool
  text_mode :: bool

text \<open>
  The surroundings of one run: \<open>sys.argv\<close>, \<open>os.environ\<close>, and what the operating
  system answers to a spawn request.
\<close>

record world =
  sys_argv :: "string list"
  os_environ :: "(string \<times> string) list"
  subprocess_run :: "invocation \<Rightarrow> spawn_result"

text \<open>How a run of the module ends: it reaches the end, or an exception leaves it.\<close>

datatype run_end = Finished | Uncaught py_exception

subsection \<open>Operations\<close>

definition newline :: char where
  "newline = CHR 0x0A"

text \<open>
  \<open>print(s)\<close> writes \<open>s\<close> and then the line end \<open>'\n'\<close>. This is \<open>print\<close> on a
  standard output that takes every write; a standard output whose writes can fail
  is modelled further down.
\<close>

definition py_print :: "string \<Rightarrow> string \<Rightarrow> string" where
  "py_print s out = out @ s @ [newline]"

text \<open>The list and keyword arguments of the one call of \<open>subprocess.run\<close>.\<close>

definition command :: invocation where
  "command =
     \<lparr>args = [''textutil'', ''-convert'', ''txt'', ''-stdout'',
              ''/Users/sachinbuluswar/Desktop/API Reference - OpenAI API.pdf''],
      capture_output = True,
      text_mode = True\<rparr>"

text \<open>The body of the \<open>try\<close>: an exception of the call leaves it before any print.\<close>

definition try_body :: "world \<Rightarrow> string \<Rightarrow> py_exception + string" where
  "try_body w out =
     (case subprocess_run w command of
        Raised e \<Rightarrow> Inl e
      | Returned result \<Rightarrow>
          if returncode result = 0 then Inr (py_print (stdout result) out)
          else Inr (py_print (''Error: '' @ stderr result) out))"

text \<open>
  The whole module. The handler catches instances of \<open>Exception\<close> only; anything
  else leaves the module with the output untouched.
\<close>

definition script :: "world \<Rightarrow> string \<Rightarrow> string \<times> run_end" where
  "script w out =
     (case try_body w out of
        Inr out' \<Rightarrow> (out', Finished)
      | Inl e \<Rightarrow>
          if is_Exception e
          then (py_print (''Failed to extract PDF: '' @ description e) out, Finished)
          else (out, Uncaught e))"

text \<open>The text one run writes, starting from an empty standard output.\<close>

definition printed :: "world \<Rightarrow> string" where
  "printed w = fst (script w [])"

subsection \<open>The specification's outcome\<close>

text \<open>
  The specification describes a run by a three-valued outcome and by the line each
  outcome is surfaced as. These two definitions follow the specification's words
  (sections 4.1 and 6), not the code; the theorems below compare the script to them.
\<close>

datatype outcome = Success string | ToolFailure string | LaunchFailure string

definition runExtraction_spec :: "spawn_result \<Rightarrow> outcome option" where
  "runExtraction_spec r =
     (case r of
        Returned p \<Rightarrow>
          if returncode p = 0 then Some (Success (stdout p))
          else Some (ToolFailure (stderr p))
      | Raised e \<Rightarrow>
          if is_Exception e then Some (LaunchFailure (description e)) else None)"

definition surfaced_spec :: "outcome \<Rightarrow> string" where
  "surfaced_spec oc =
     (case oc of
        Success t \<Rightarrow> t
      | ToolFailure m \<Rightarrow> ''Error: '' @ m
      | LaunchFailure m \<Rightarrow> ''Failed to extract PDF: '' @ m)"

text \<open>A world for examples: the tool answers \<open>r\<close> to every request.\<close>

definition answering :: "spawn_result \<Rightarrow> world" where
  "answering r = \<lparr>sys_argv = [''extract_pdf.py''], os_environ = [], subprocess_run = (\<lambda>_. r)\<rparr>"

subsection \<open>A standard output that can fail\<close>

text \<open>
  \<open>print\<close> can itself raise: the write fails (no space left on the device, a closed
  pipe) or the text cannot be encoded. The prints of the \<open>try\<close> block (those of the
  \<open>if\<close> and the \<open>else\<close>) are guarded by the handler; the handler's own print is
  guarded by nothing. Which errors leave the script, and what the exit status is,
  depends on this, so for these two questions the run is modelled over a standard
  output with faults. \<open>script\<close> above is the run over a standard output without any.

  \<open>print_fault d s out = Some (out', e)\<close>: printing \<open>s\<close> when the standard output
  holds \<open>out\<close> raises \<open>e\<close> and leaves \<open>out'\<close> written. \<open>flush_fault d out\<close>: the flush
  of the standard output at interpreter shutdown fails.
\<close>

record output_device =
  print_fault :: "string \<Rightarrow> string \<Rightarrow> (string \<times> py_exception) option"
  flush_fault :: "string \<Rightarrow> bool"

definition py_print_io :: "output_device \<Rightarrow> string \<Rightarrow> string \<Rightarrow> (string \<times> py_exception) + string" where
  "py_print_io d s out =
     (case print_fault d s out of
        None \<Rightarrow> Inr (py_print s out)
      | Some (out', e) \<Rightarrow> Inl (out', e))"

text \<open>The body of the \<open>try\<close>: the call or a print may raise.\<close>

definition try_body_io :: "world \<Rightarrow> output_device \<Rightarrow> string \<Rightarrow> (string \<times> py_exception) + string" where
  "try_body_io w d out =
     (case subprocess_run w command of
        Raised e \<Rightarrow> Inl (out, e)
      | Returned result \<Rightarrow>
          if returncode result = 0 then py_print_io d (stdout result) out
          else py_print_io d (''Error: '' @ stderr result) out)"

text \<open>
  The whole module. An instance of \<open>Exception\<close> raised in the \<open>try\<close> reaches the
  handler, whose print runs outside any \<open>try\<close>: what it raises leaves the module.
\<close>

definition script_io :: "world \<Rightarrow> output_device \<Rightarrow> string \<Rightarrow> string \<times> run_end" where
  "script_io w d out =
     (case try_body_io w d out of
        Inr out' \<Rightarrow> (out', Finished)
      | Inl (out', e) \<Rightarrow>
          if is_Exception e
          then (case py_print_io d (''Failed to extract PDF: '' @ description e) out' of
                  Inr out'' \<Rightarrow> (out'', Finished)
                | Inl (out'', e') \<Rightarrow> (out'', Uncaught e'))
          else (out', Uncaught e))"




definition unbuffered_full :: output_device where
  "unbuffered_full =
     \<lparr>print_fault = (\<lambda>s out. Some (out, PyException True ''[Errno 28] No space left on device'')),
      flush_fault = (\<lambda>out. False)\<rparr>"


definition ascii_only :: output_device where
  "ascii_only =
     \<lparr>print_fault = (\<lambda>s out.
        if list_ex (\<lambda>c. (127::nat) < of_char c) s
        then Some (out, PyException True ''ordinal not in range(128)'')
        else None),
      flush_fault = (\<lambda>out. False)\<rparr>"

section \<open>Properties\<close>

subsection \<open>What one run does, case by case\<close>

lemma script_returned_zero:
  assumes "subprocess_run w command = Returned p" and "returncode p = 0"
  shows "script w out = (out @ stdout p @ [newline], Finished)"
  using assms by (simp add: script_def try_body_def py_print_def)

lemma script_returned_nonzero:
  assumes "subprocess_run w command = Returned p" and "returncode p \<noteq> 0"
  shows "script w out = (out @ ''Error: '' @ stderr p @ [newline], Finished)"
  using assms by (simp add: script_def try_body_def py_print_def)

lemma script_raised_error:
  assumes "subprocess_run w command = Raised e" and "is_Exception e"
  shows "script w out = (out @ ''Failed to extract PDF: '' @ description e @ [newline], Finished)"
  using assms by (simp add: script_def try_body_def py_print_def)

lemma script_raised_other:
  assumes "subprocess_run w command = Raised e" and "\<not> is_Exception e"
  shows "script w out = (out, Uncaught e)"
  using assms by (simp add: script_def try_body_def)

lemma script_of_outcome:
  assumes "runExtraction_spec (subprocess_run w command) = Some oc"
  shows "script w out = (out @ surfaced_spec oc @ [newline], Finished)"
proof (cases "subprocess_run w command")
  case (Returned p)
  with assms show ?thesis
    by (cases "returncode p = 0")
       (auto simp: runExtraction_spec_def surfaced_spec_def
          script_returned_zero script_returned_nonzero)
next
  case (Raised e)
  with assms show ?thesis
    by (cases "is_Exception e")
       (auto simp: runExtraction_spec_def surfaced_spec_def script_raised_error)
qed

lemma script_appends:
  "script w out = (out @ printed w, snd (script w []))"
  by (simp add: printed_def script_def try_body_def py_print_def
      split: spawn_result.splits)

subsection \<open>The three outcomes\<close>

text \<open>
  C1. A run is classified by the spawn attempt and the exit status into one of three
  cases. When the call returns with exit status zero, the outcome is \<open>Success\<close> with the
  captured standard output; when it returns with another exit status, the outcome is
  \<open>ToolFailure\<close> with the captured standard error; when it raises an error (an instance
  of \<open>Exception\<close>), the outcome is \<open>LaunchFailure\<close> with the error's description. In
  each case the script prints exactly the line of that outcome and ends normally. The
  outcome is a function of the answer, so no run has two; the only answer without an
  outcome is a raised object that is not an error, which the handler does not catch.
\<close>

theorem C1_three_outcomes:
  "(subprocess_run w command = Returned p \<longrightarrow> returncode p = 0 \<longrightarrow>
      runExtraction_spec (subprocess_run w command) = Some (Success (stdout p)) \<and>
      script w out = (py_print (surfaced_spec (Success (stdout p))) out, Finished)) \<and>
   (subprocess_run w command = Returned p \<longrightarrow> returncode p \<noteq> 0 \<longrightarrow>
      runExtraction_spec (subprocess_run w command) = Some (ToolFailure (stderr p)) \<and>
      script w out = (py_print (surfaced_spec (ToolFailure (stderr p))) out, Finished)) \<and>
   (subprocess_run w command = Raised e \<longrightarrow> is_Exception e \<longrightarrow>
      runExtraction_spec (subprocess_run w command) = Some (LaunchFailure (description e)) \<and>
      script w out = (py_print (surfaced_spec (LaunchFailure (description e))) out, Finished)) \<and>
   (runExtraction_spec (subprocess_run w command) = None \<longleftrightarrow>
      (\<exists>x. subprocess_run w command = Raised x \<and> \<not> is_Exception x))"
proof (intro conjI impI)
  assume "subprocess_run w command = Returned p" "returncode p = 0"
  then show "runExtraction_spec (subprocess_run w command) = Some (Success (stdout p))"
    and "script w out = (py_print (surfaced_spec (Success (stdout p))) out, Finished)"
    by (simp_all add: runExtraction_spec_def surfaced_spec_def py_print_def script_returned_zero)
next
  assume "subprocess_run w command = Returned p" "returncode p \<noteq> 0"
  then show "runExtraction_spec (subprocess_run w command) = Some (ToolFailure (stderr p))"
    and "script w out = (py_print (surfaced_spec (ToolFailure (stderr p))) out, Finished)"
    by (simp_all add: runExtraction_spec_def surfaced_spec_def py_print_def
        script_returned_nonzero)
next
  assume "subprocess_run w command = Raised e" "is_Exception e"
  then show "runExtraction_spec (subprocess_run w command) = Some (LaunchFailure (description e))"
    and "script w out = (py_print (surfaced_spec (LaunchFailure (description e))) out, Finished)"
    by (simp_all add: runExtraction_spec_def surfaced_spec_def py_print_def script_raised_error)
next
  show "runExtraction_spec (subprocess_run w command) = None \<longleftrightarrow>
      (\<exists>x. subprocess_run w command = Raised x \<and> \<not> is_Exception x)"
    by (cases "subprocess_run w command") (auto simp: runExtraction_spec_def)
qed

theorem C1_three_outcomes_witness:
  "script (answering (Returned \<lparr>returncode = 0, stdout = ''page one'', stderr = []\<rparr>)) []
     = (''page one'' @ [newline], Finished) \<and>
   script (answering (Returned \<lparr>returncode = 1, stdout = [], stderr = ''bad format''\<rparr>)) []
     = (''Error: bad format'' @ [newline], Finished) \<and>
   script (answering (Raised (PyException True ''[Errno 2] No such file or directory''))) []
     = (''Failed to extract PDF: [Errno 2] No such file or directory'' @ [newline], Finished)"
  using
    C1_three_outcomes [of "answering (Returned \<lparr>returncode = 0, stdout = ''page one'', stderr = []\<rparr>)"
      "\<lparr>returncode = 0, stdout = ''page one'', stderr = []\<rparr>" "[]" "PyException True []"]
    C1_three_outcomes [of "answering (Returned \<lparr>returncode = 1, stdout = [], stderr = ''bad format''\<rparr>)"
      "\<lparr>returncode = 1, stdout = [], stderr = ''bad format''\<rparr>" "[]" "PyException True []"]
    C1_three_outcomes [of "answering (Raised (PyException True ''[Errno 2] No such file or directory''))"
      "\<lparr>returncode = 0, stdout = [], stderr = []\<rparr>" "[]"
      "PyException True ''[Errno 2] No such file or directory''"]
  by (simp add: answering_def surfaced_spec_def py_print_def)

subsection \<open>What is printed\<close>

text \<open>
  C2, as stated: when the tool returns a non-zero exit status with standard error
  \<open>bad format\<close>, the text on the script's standard output is exactly
  \<open>Error: bad format\<close>. It is not: \<open>print\<close> ends the line, so one more character
  is written.
\<close>

theorem C2_error_line_counterexample:
  "printed (answering (Returned \<lparr>returncode = 1, stdout = [], stderr = ''bad format''\<rparr>))
     \<noteq> ''Error: bad format''"
  by (simp add: printed_def script_def try_body_def py_print_def answering_def)

text \<open>
  C2, amended: when the tool returns a non-zero exit status with standard error
  \<open>bad format\<close>, the text written to the script's standard output is exactly
  \<open>Error: bad format\<close> followed by one newline, whatever the exit status and the
  captured standard output are.
\<close>

theorem C2_error_line:
  assumes "subprocess_run w command = Returned p"
    and "returncode p \<noteq> 0"
    and "stderr p = ''bad format''"
  shows "printed w = ''Error: bad format'' @ [newline]"
  using script_returned_nonzero [OF assms(1,2), of "[]"] assms(3)
  by (simp add: printed_def)

theorem C2_error_line_witness:
  "printed (answering (Returned \<lparr>returncode = 1, stdout = ''ignored'', stderr = ''bad format''\<rparr>))
     = ''Error: bad format'' @ [newline]"
  using C2_error_line [of "answering (Returned \<lparr>returncode = 1, stdout = ''ignored'', stderr = ''bad format''\<rparr>)"
      "\<lparr>returncode = 1, stdout = ''ignored'', stderr = ''bad format''\<rparr>"]
  by (simp add: answering_def)

text \<open>
  C3, as stated: when the tool exits with status zero, the captured standard output
  is printed unmodified, with no alteration. The text on the script's standard output
  is not the captured text: it is one character longer.
\<close>

theorem C3_success_text_counterexample:
  "printed (answering (Returned \<lparr>returncode = 0, stdout = ''page one'', stderr = []\<rparr>))
     \<noteq> stdout \<lparr>returncode = 0, stdout = ''page one'', stderr = []\<rparr>"
  by (simp add: printed_def script_def try_body_def py_print_def answering_def)

text \<open>
  C3, amended: when the tool exits with status zero, the \<open>Success\<close> text is exactly the
  tool's captured standard output, and the script writes that text, itself unaltered,
  followed by one newline that \<open>print\<close> adds, after whatever was written before.
\<close>

theorem C3_success_text:
  assumes "subprocess_run w command = Returned p"
    and "returncode p = 0"
  shows "runExtraction_spec (subprocess_run w command) = Some (Success (stdout p)) \<and>
    printed w = stdout p @ [newline] \<and>
    script w out = (out @ stdout p @ [newline], Finished)"
  using script_returned_zero [OF assms, of "[]"] script_returned_zero [OF assms, of out] assms
  by (simp add: printed_def runExtraction_spec_def)

theorem C3_success_text_witness:
  "printed (answering (Returned \<lparr>returncode = 0, stdout = ''page one'', stderr = ''warning''\<rparr>))
     = ''page one'' @ [newline]"
  using C3_success_text [of "answering (Returned \<lparr>returncode = 0, stdout = ''page one'', stderr = ''warning''\<rparr>)"
      "\<lparr>returncode = 0, stdout = ''page one'', stderr = ''warning''\<rparr>" "[]"]
  by (simp add: answering_def)

text \<open>
  C4, as stated: whenever spawning raises an error, the printed output starts with
  \<open>Failed to extract PDF:\<close> followed by a non-empty description of the error. The
  script prints whatever \<open>str(e)\<close> is; for an error whose description is empty (as
  \<open>str(MemoryError())\<close> is) nothing stands between the prefix with its space and the
  end of the line.
\<close>

theorem C4_launch_failure_counterexample:
  "\<not> (prefix ''Failed to extract PDF:'' (printed (answering (Raised (PyException True [])))) \<and>
      butlast (drop (length ''Failed to extract PDF: '')
        (printed (answering (Raised (PyException True []))))) \<noteq> [])"
  by (simp add: printed_def script_def try_body_def py_print_def answering_def)

text \<open>
  C4, amended: whenever spawning raises an error, the printed output is the prefix
  \<open>Failed to extract PDF:\<close>, one space, the description of the raised error and a
  newline; the description printed is the error's own, so it is non-empty exactly
  when the error's description is.
\<close>

theorem C4_launch_failure:
  assumes "subprocess_run w command = Raised e"
    and "is_Exception e"
  shows "prefix ''Failed to extract PDF:'' (printed w) \<and>
    printed w = ''Failed to extract PDF: '' @ description e @ [newline] \<and>
    butlast (drop (length ''Failed to extract PDF: '') (printed w)) = description e"
proof -
  have p: "printed w = ''Failed to extract PDF: '' @ description e @ [newline]"
    using script_raised_error [OF assms, of "[]"] by (simp add: printed_def)
  have "butlast (drop (length ''Failed to extract PDF: '') (printed w)) = description e"
    unfolding p by (simp add: butlast_append)
  moreover have "prefix ''Failed to extract PDF:'' (printed w)"
    unfolding p by simp
  ultimately show ?thesis using p by blast
qed

theorem C4_launch_failure_witness:
  "prefix ''Failed to extract PDF:''
     (printed (answering (Raised (PyException True ''[Errno 2] No such file or directory'')))) \<and>
   printed (answering (Raised (PyException True ''[Errno 2] No such file or directory'')))
     = ''Failed to extract PDF: [Errno 2] No such file or directory'' @ [newline]"
  using C4_launch_failure [of "answering (Raised (PyException True ''[Errno 2] No such file or directory''))"
      "PyException True ''[Errno 2] No such file or directory''"]
  by (simp add: answering_def)

text \<open>
  C10. On every outcome \<open>print\<close> appends one newline to the message: on \<open>Success\<close>
  the text written is the captured standard output followed by a newline, so it
  differs from the captured standard output; the \<open>ToolFailure\<close> and \<open>LaunchFailure\<close>
  lines end with the appended newline as well.
\<close>

theorem C10_trailing_newline:
  "(subprocess_run w command = Returned p \<longrightarrow> returncode p = 0 \<longrightarrow>
      script w out = (out @ stdout p @ [newline], Finished) \<and>
      printed w = stdout p @ [newline] \<and> printed w \<noteq> stdout p) \<and>
   (subprocess_run w command = Returned p \<longrightarrow> returncode p \<noteq> 0 \<longrightarrow>
      script w out = (out @ (''Error: '' @ stderr p) @ [newline], Finished) \<and>
      printed w = (''Error: '' @ stderr p) @ [newline]) \<and>
   (subprocess_run w command = Raised e \<longrightarrow> is_Exception e \<longrightarrow>
      script w out = (out @ (''Failed to extract PDF: '' @ description e) @ [newline], Finished) \<and>
      printed w = (''Failed to extract PDF: '' @ description e) @ [newline])"
  by (simp add: printed_def script_returned_zero script_returned_nonzero script_raised_error)

theorem C10_trailing_newline_witness:
  "printed (answering (Returned \<lparr>returncode = 0, stdout = ''page one'', stderr = []\<rparr>))
     = ''page one'' @ [newline] \<and>
   printed (answering (Returned \<lparr>returncode = 2, stdout = [], stderr = ''no such file''\<rparr>))
     = ''Error: no such file'' @ [newline] \<and>
   printed (answering (Raised (PyException True ''[Errno 13] Permission denied'')))
     = ''Failed to extract PDF: [Errno 13] Permission denied'' @ [newline]"
  using
    C10_trailing_newline [of "answering (Returned \<lparr>returncode = 0, stdout = ''page one'', stderr = []\<rparr>)"
      "\<lparr>returncode = 0, stdout = ''page one'', stderr = []\<rparr>" "[]" "PyException True []"]
    C10_trailing_newline [of "answering (Returned \<lparr>returncode = 2, stdout = [], stderr = ''no such file''\<rparr>)"
      "\<lparr>returncode = 2, stdout = [], stderr = ''no such file''\<rparr>" "[]" "PyException True []"]
    C10_trailing_newline [of "answering (Raised (PyException True ''[Errno 13] Permission denied''))"
      "\<lparr>returncode = 0, stdout = [], stderr = []\<rparr>" "[]"
      "PyException True ''[Errno 13] Permission denied''"]
  by (simp add: answering_def)

subsection \<open>How a run ends\<close>

lemma script_io_no_fault:
  assumes "\<forall>s b. print_fault d s b = None"
  shows "script_io w d out = script w out"
  using assms
  by (simp add: script_io_def try_body_io_def py_print_io_def script_def try_body_def
      split: spawn_result.splits)

lemma script_io_caught:
  assumes "try_body_io w d out = Inl (out', e)"
    and "is_Exception e"
    and "print_fault d (''Failed to extract PDF: '' @ description e) out' = None"
  shows "script_io w d out = (py_print (''Failed to extract PDF: '' @ description e) out', Finished)"
  using assms by (simp add: script_io_def py_print_io_def)

text \<open>
  C5, as stated: whichever of the three outcomes a run has, no uncaught error leaves
  the script. The handler's own print is outside the \<open>try\<close>: on a standard output
  where it raises, a run whose spawn attempt failed ends with that error unhandled.
\<close>

theorem C5_errors_caught_counterexample:
  "runExtraction_spec
     (subprocess_run (answering (Raised (PyException True ''[Errno 2] No such file or directory''))) command)
     = Some (LaunchFailure ''[Errno 2] No such file or directory'') \<and>
   script_io (answering (Raised (PyException True ''[Errno 2] No such file or directory'')))
       unbuffered_full []
     = ([], Uncaught (PyException True ''[Errno 28] No space left on device''))"
  by (simp add: runExtraction_spec_def script_io_def try_body_io_def py_print_io_def
      answering_def unbuffered_full_def)

text \<open>
  C5, amended: in every run in which the handler's own print does not raise, no
  uncaught error leaves the script: every error raised inside the \<open>try\<close>, by the spawn
  attempt or by a print, is caught and turned into the printed line
  \<open>Failed to extract PDF:\<close> with its description, and the run reaches its end.
\<close>

theorem C5_errors_caught:
  assumes "\<forall>out' e. try_body_io w d out = Inl (out', e) \<longrightarrow> is_Exception e \<longrightarrow>
      print_fault d (''Failed to extract PDF: '' @ description e) out' = None"
  shows "(is_Exception x \<longrightarrow> snd (script_io w d out) \<noteq> Uncaught x) \<and>
    (try_body_io w d out = Inl (out1, e1) \<longrightarrow> is_Exception e1 \<longrightarrow>
       script_io w d out = (py_print (''Failed to extract PDF: '' @ description e1) out1, Finished)) \<and>
    (subprocess_run w command = Raised e2 \<longrightarrow> is_Exception e2 \<longrightarrow>
       script_io w d out = (py_print (''Failed to extract PDF: '' @ description e2) out, Finished))"
proof (intro conjI impI)
  assume x: "is_Exception x"
  show "snd (script_io w d out) \<noteq> Uncaught x"
  proof (cases "try_body_io w d out")
    case (Inr out')
    then show ?thesis by (simp add: script_io_def)
  next
    case (Inl pe)
    obtain out' e where pe: "pe = (out', e)" by (cases pe)
    show ?thesis
    proof (cases "is_Exception e")
      case True
      with Inl pe assms
      have "print_fault d (''Failed to extract PDF: '' @ description e) out' = None"
        by simp
      with Inl pe True show ?thesis
        by (simp add: script_io_caught)
    next
      case False
      with Inl pe x show ?thesis
        by (auto simp: script_io_def)
    qed
  qed
next
  assume t: "try_body_io w d out = Inl (out1, e1)" and e: "is_Exception e1"
  with assms have "print_fault d (''Failed to extract PDF: '' @ description e1) out1 = None"
    by simp
  with t e show "script_io w d out = (py_print (''Failed to extract PDF: '' @ description e1) out1, Finished)"
    by (rule script_io_caught)
next
  assume r: "subprocess_run w command = Raised e2" and e: "is_Exception e2"
  from r have t: "try_body_io w d out = Inl (out, e2)"
    by (simp add: try_body_io_def)
  with assms e have "print_fault d (''Failed to extract PDF: '' @ description e2) out = None"
    by simp
  with t e show "script_io w d out = (py_print (''Failed to extract PDF: '' @ description e2) out, Finished)"
    by (rule script_io_caught)
qed

theorem C5_errors_caught_witness:
  "script_io (answering (Returned \<lparr>returncode = 0, stdout = ''caf'' @ [CHR 0xE9], stderr = []\<rparr>))
       ascii_only ''x''
     = (''xFailed to extract PDF: ordinal not in range(128)'' @ [newline], Finished) \<and>
   script_io (answering (Raised (PyException True ''[Errno 2] No such file or directory'')))
       ascii_only ''x''
     = (''xFailed to extract PDF: [Errno 2] No such file or directory'' @ [newline], Finished)"
  using
    C5_errors_caught [of "answering (Returned \<lparr>returncode = 0, stdout = ''caf'' @ [CHR 0xE9], stderr = []\<rparr>)"
      ascii_only "''x''" "PyException True []" "''x''" "PyException True ''ordinal not in range(128)''"
      "PyException True []"]
    C5_errors_caught [of "answering (Raised (PyException True ''[Errno 2] No such file or directory''))"
      ascii_only "''x''" "PyException True []" "''x''"
      "PyException True ''[Errno 2] No such file or directory''"
      "PyException True ''[Errno 2] No such file or directory''"]
  by (simp add: try_body_io_def py_print_io_def py_print_def answering_def ascii_only_def)




subsection \<open>What a run depends on\<close>



text \<open>
  C8. Two runs in sequence, the second starting from the standard output the first
  left, in which the tool behaves alike both times, have the same outcome, end the
  same way and write the same text: nothing of the first run reaches the second.
\<close>

theorem C8_two_runs_agree:
  assumes "subprocess_run w2 = subprocess_run w1"
    and "script w1 out = (out1, t1)"
    and "script w2 out1 = (out2, t2)"
  shows "runExtraction_spec (subprocess_run w2 command) = runExtraction_spec (subprocess_run w1 command) \<and>
    t2 = t1 \<and> out1 = out @ printed w1 \<and> out2 = out1 @ printed w1"
proof -
  have same: "script w2 [] = script w1 []"
    using assms(1) by (simp add: script_def try_body_def)
  have "script w1 out = (out @ printed w1, snd (script w1 []))"
    by (rule script_appends)
  with assms(2) have one: "out1 = out @ printed w1" "t1 = snd (script w1 [])"
    by simp_all
  have "script w2 out1 = (out1 @ printed w2, snd (script w2 []))"
    by (rule script_appends)
  with assms(3) same have two: "out2 = out1 @ printed w1" "t2 = snd (script w1 [])"
    by (simp_all add: printed_def)
  from one two assms(1) show ?thesis by simp
qed

theorem C8_two_runs_agree_witness:
  "script (answering (Returned \<lparr>returncode = 3, stdout = [], stderr = ''bad format''\<rparr>)) []
     = (''Error: bad format'' @ [newline], Finished) \<and>
   script (answering (Returned \<lparr>returncode = 3, stdout = [], stderr = ''bad format''\<rparr>))
       (''Error: bad format'' @ [newline])
     = ((''Error: bad format'' @ [newline]) @ ''Error: bad format'' @ [newline], Finished)"
proof -
  let ?w = "answering (Returned \<lparr>returncode = 3, stdout = [], stderr = ''bad format''\<rparr>)"
  have one: "script ?w [] = (''Error: bad format'' @ [newline], Finished)"
    by (simp add: script_def try_body_def py_print_def answering_def)
  obtain out2 t2 where two: "script ?w (''Error: bad format'' @ [newline]) = (out2, t2)"
    by (cases "script ?w (''Error: bad format'' @ [newline])")
  have p: "printed ?w = ''Error: bad format'' @ [newline]"
    using one by (simp add: printed_def)
  from C8_two_runs_agree [OF refl one two] p
  have "t2 = Finished" "out2 = (''Error: bad format'' @ [newline]) @ ''Error: bad format'' @ [newline]"
    by simp_all
  with one two show ?thesis by simp
qed



end
